theory Spec2Isabelle
  imports Main
begin

section \<open>Session state: redux/slices/authSlice.ts\<close>

text \<open>
  The two enums of the slice, the three interfaces (a nullable field is an \<open>option\<close>)
  and the initial state.  Field names that clash with HOL constants carry a prefix.
\<close>

datatype AuthStatus = IDLE | LOADING | AUTHENTICATED | UNAUTHENTICATED | ERROR

datatype AuthErrorType = INVALID_CREDENTIALS | NETWORK_ERROR | UNKNOWN

record User =
  user_id :: int
  user_email :: string
  user_name :: string
  user_status :: string
  user_createdAt :: string

record AuthError =
  error_type :: AuthErrorType
  error_message :: string

record AuthState =
  user :: "User option"
  accessToken :: "string option"
  refreshToken :: "string option"
  status :: AuthStatus
  error :: "AuthError option"

definition initialState :: AuthState where
  "initialState =
     \<lparr>user = None, accessToken = None, refreshToken = None, status = IDLE, error = None\<rparr>"

text \<open>The five case reducers.  Each takes the payload and the state and returns the new state.\<close>

definition setUser :: "User \<Rightarrow> AuthState \<Rightarrow> AuthState" where
  "setUser payload state = state\<lparr>user := Some payload, status := AUTHENTICATED\<rparr>"

definition setTokens :: "string \<Rightarrow> string \<Rightarrow> AuthState \<Rightarrow> AuthState" where
  "setTokens payload_accessToken payload_refreshToken state =
     state\<lparr>accessToken := Some payload_accessToken, refreshToken := Some payload_refreshToken\<rparr>"

definition clearAuth :: "AuthState \<Rightarrow> AuthState" where
  "clearAuth state =
     state\<lparr>user := None, accessToken := None, refreshToken := None,
            status := UNAUTHENTICATED, error := None\<rparr>"

definition setError :: "AuthError \<Rightarrow> AuthState \<Rightarrow> AuthState" where
  "setError payload state = state\<lparr>error := Some payload, status := ERROR\<rparr>"

definition setStatus :: "AuthStatus \<Rightarrow> AuthState \<Rightarrow> AuthState" where
  "setStatus payload state = state\<lparr>status := payload\<rparr>"

text \<open>The actions of the slice and the reducer that dispatches on them.\<close>

datatype action =
    SetUser User
  | SetTokens string string
  | ClearAuth
  | SetError AuthError
  | SetStatus AuthStatus

fun authReducer :: "AuthState \<Rightarrow> action \<Rightarrow> AuthState" where
  "authReducer state (SetUser u) = setUser u state"
| "authReducer state (SetTokens a r) = setTokens a r state"
| "authReducer state ClearAuth = clearAuth state"
| "authReducer state (SetError e) = setError e state"
| "authReducer state (SetStatus st) = setStatus st state"

text \<open>The selectors.\<close>

definition selectIsAuthenticated :: "AuthState \<Rightarrow> bool" where
  "selectIsAuthenticated state \<longleftrightarrow> status state = AUTHENTICATED \<and> user state \<noteq> None"

definition selectCurrentUser :: "AuthState \<Rightarrow> User option" where
  "selectCurrentUser state = user state"

definition selectAuthStatus :: "AuthState \<Rightarrow> AuthStatus" where
  "selectAuthStatus state = status state"

definition selectAuthError :: "AuthState \<Rightarrow> AuthError option" where
  "selectAuthError state = error state"

definition selectAccessToken :: "AuthState \<Rightarrow> string option" where
  "selectAccessToken state = accessToken state"

text \<open>
  The session invariant of the specification, in its two readings of "no unresolved
  ERROR is pending": no error is recorded in the \<open>error\<close> field, or the status is not
  \<open>ERROR\<close>.  The weaker one-directional property forbids only a state that is
  \<open>AUTHENTICATED\<close> without a user.
\<close>

definition session_invariant :: "AuthState \<Rightarrow> bool" where
  "session_invariant state \<longleftrightarrow>
     ((status state = AUTHENTICATED) = (user state \<noteq> None \<and> error state = None))"

definition session_invariant_status :: "AuthState \<Rightarrow> bool" where
  "session_invariant_status state \<longleftrightarrow>
     ((status state = AUTHENTICATED) = (user state \<noteq> None \<and> status state \<noteq> ERROR))"

definition authenticated_has_user :: "AuthState \<Rightarrow> bool" where
  "authenticated_has_user state \<longleftrightarrow> (status state = AUTHENTICATED \<longrightarrow> user state \<noteq> None)"

section \<open>Token storage: utilities/tokenStorage.ts\<close>

text \<open>
  \<open>localStorage\<close> maps key strings to value strings; \<open>getItem\<close> of a missing key is
  \<open>null\<close>.  The enum \<open>StorageKey\<close> names the three slots, each by the string of
  its own name.
\<close>

datatype StorageKey = ACCESS_TOKEN | REFRESH_TOKEN | USER_DATA

fun storage_key :: "StorageKey \<Rightarrow> string" where
  "storage_key ACCESS_TOKEN = ''ACCESS_TOKEN''"
| "storage_key REFRESH_TOKEN = ''REFRESH_TOKEN''"
| "storage_key USER_DATA = ''USER_DATA''"

type_synonym Storage = "string \<rightharpoonup> string"

definition saveTokens :: "string \<Rightarrow> string \<Rightarrow> Storage \<Rightarrow> Storage" where
  "saveTokens access refresh ls =
     (ls(storage_key ACCESS_TOKEN \<mapsto> access))(storage_key REFRESH_TOKEN \<mapsto> refresh)"

definition getAccessToken :: "Storage \<Rightarrow> string option" where
  "getAccessToken ls = ls (storage_key ACCESS_TOKEN)"

definition getRefreshToken :: "Storage \<Rightarrow> string option" where
  "getRefreshToken ls = ls (storage_key REFRESH_TOKEN)"

definition clearTokens :: "Storage \<Rightarrow> Storage" where
  "clearTokens ls =
     ((ls(storage_key ACCESS_TOKEN := None))(storage_key REFRESH_TOKEN := None))
       (storage_key USER_DATA := None)"

text \<open>
  JavaScript's truthiness of a \<open>string | null\<close>: \<open>null\<close> and the empty string are
  falsy, every other string is truthy.
\<close>

fun truthy :: "string option \<Rightarrow> bool" where
  "truthy None = False"
| "truthy (Some s) = (s \<noteq> [])"

subsection \<open>isTokenExpired\<close>

text \<open>
  \<open>isTokenExpired\<close> calls four built-ins that are not part of the repository:
  \<open>atob\<close>, \<open>JSON.parse\<close>, the numeric coercion of \<open>payload.exp * 1000\<close> and
  \<open>Date.now()\<close>.  They are the fields of a \<open>Runtime\<close> the model takes as a parameter.
  A built-in that throws returns \<open>None\<close>.

  A parsed JSON value is \<open>null\<close>, a boolean, a number, a string, an array or an object
  (its own properties as an association list).  Numbers are integers: an expiry claim
  counts whole seconds and \<open>Date.now()\<close> whole milliseconds, and on integers with a
  clock below \<open>2^53\<close> the double-precision product and comparison of the source agree
  with exact arithmetic.  \<open>JsNumber\<close> adds the three non-finite values a coercion can give.
\<close>

datatype Json =
    JNull
  | JBool bool
  | JNumber int
  | JString string
  | JArray "Json list"
  | JObject "(string \<times> Json) list"

datatype JsNumber = NaN | NegInfinity | Finite int | PosInfinity

datatype JsError = InvalidCharacterError | SyntaxError | TypeError

record Runtime =
  atob :: "string \<Rightarrow> string option"
  JSON_parse :: "string \<Rightarrow> Json option"
  ToNumber_string_or_object :: "Json \<Rightarrow> JsNumber option"
  Date_now :: int

text \<open>\<open>token.split('.')\<close>: the segments between the dots, one more than there are dots.\<close>

fun split_dot :: "string \<Rightarrow> string list" where
  "split_dot [] = [[]]"
| "split_dot (c # cs) =
     (if c = CHR ''.'' then [] # split_dot cs
      else (case split_dot cs of
              [] \<Rightarrow> [[c]]
            | seg # segs \<Rightarrow> (c # seg) # segs))"

text \<open>
  \<open>xs[1]\<close> is \<open>undefined\<close> past the end of the array, and \<open>atob(undefined)\<close>
  decodes the string \<open>"undefined"\<close>.
\<close>

definition payload_segment :: "string \<Rightarrow> string" where
  "payload_segment token =
     (case split_dot token of
        _ # seg # _ \<Rightarrow> seg
      | _ \<Rightarrow> ''undefined'')"

text \<open>
  \<open>payload.exp\<close>: reading a property of \<open>null\<close> throws a TypeError; a boolean, a
  number, a string and an array have no property \<open>exp\<close>, which reads as \<open>undefined\<close>
  (\<open>Inr None\<close>); an object gives its property, or \<open>undefined\<close>.
\<close>

fun get_exp :: "Json \<Rightarrow> JsError + Json option" where
  "get_exp JNull = Inl TypeError"
| "get_exp (JObject props) = Inr (map_of props ''exp'')"
| "get_exp _ = Inr None"

text \<open>
  The coercion of the operand of \<open>* 1000\<close>: \<open>undefined\<close> is \<open>NaN\<close>, \<open>null\<close> is
  \<open>0\<close>, \<open>true\<close> is \<open>1\<close>, \<open>false\<close> is \<open>0\<close>, a number is itself; a string, an array
  or an object goes through the runtime's conversion, which may throw.
\<close>

fun ToNumber :: "Runtime \<Rightarrow> Json option \<Rightarrow> JsError + JsNumber" where
  "ToNumber rt None = Inr NaN"
| "ToNumber rt (Some JNull) = Inr (Finite 0)"
| "ToNumber rt (Some (JBool b)) = Inr (Finite (if b then 1 else 0))"
| "ToNumber rt (Some (JNumber n)) = Inr (Finite n)"
| "ToNumber rt (Some v) =
     (case ToNumber_string_or_object rt v of
        None \<Rightarrow> Inl TypeError
      | Some x \<Rightarrow> Inr x)"

fun times_1000 :: "JsNumber \<Rightarrow> JsNumber" where
  "times_1000 (Finite n) = Finite (n * 1000)"
| "times_1000 x = x"

text \<open>\<open>now >= x\<close> for an integer clock: every comparison with \<open>NaN\<close> is false.\<close>

fun js_ge :: "int \<Rightarrow> JsNumber \<Rightarrow> bool" where
  "js_ge now NaN = False"
| "js_ge now NegInfinity = True"
| "js_ge now (Finite m) = (now \<ge> m)"
| "js_ge now PosInfinity = False"

text \<open>The body of the \<open>try\<close> block, with each exception as an \<open>Inl\<close>.\<close>

definition isTokenExpired_try :: "Runtime \<Rightarrow> string \<Rightarrow> JsError + bool" where
  "isTokenExpired_try rt token =
     (case atob rt (payload_segment token) of
        None \<Rightarrow> Inl InvalidCharacterError
      | Some decoded \<Rightarrow>
          (case JSON_parse rt decoded of
             None \<Rightarrow> Inl SyntaxError
           | Some payload \<Rightarrow>
               (case get_exp payload of
                  Inl e \<Rightarrow> Inl e
                | Inr member \<Rightarrow>
                    (case ToNumber rt member of
                       Inl e \<Rightarrow> Inl e
                     | Inr n \<Rightarrow> Inr (js_ge (Date_now rt) (times_1000 n))))))"

definition isTokenExpired :: "Runtime \<Rightarrow> string \<Rightarrow> bool" where
  "isTokenExpired rt token =
     (case isTokenExpired_try rt token of
        Inl _ \<Rightarrow> True
      | Inr expired \<Rightarrow> expired)"

section \<open>The Apollo links: apollo/authLink.ts, apollo/errorLink.ts, apollo/client.ts\<close>

text \<open>
  The codes of \<open>GraphQLErrorCode\<close> are the strings of their names.  A GraphQL error
  carries its message and \<open>extensions?.code\<close>, which is \<open>undefined\<close> (\<open>None\<close>) when
  the error has no extensions or no code.
\<close>

datatype GraphQLErrorCode =
    Code_UNAUTHENTICATED
  | Code_FORBIDDEN
  | Code_BAD_USER_INPUT
  | Code_INTERNAL_SERVER_ERROR

fun code_string :: "GraphQLErrorCode \<Rightarrow> string" where
  "code_string Code_UNAUTHENTICATED = ''UNAUTHENTICATED''"
| "code_string Code_FORBIDDEN = ''FORBIDDEN''"
| "code_string Code_BAD_USER_INPUT = ''BAD_USER_INPUT''"
| "code_string Code_INTERNAL_SERVER_ERROR = ''INTERNAL_SERVER_ERROR''"

record GraphQLError =
  gql_message :: string
  gql_code :: "string option"

text \<open>
  \<open>authLink\<close>: the headers of the request are the headers of the context, with
  \<open>authorization\<close> set when the stored token is truthy.
\<close>

type_synonym Headers = "string \<rightharpoonup> string"

definition authLink :: "Storage \<Rightarrow> Headers \<Rightarrow> Headers" where
  "authLink ls headers =
     (let token = getAccessToken ls;
          typedHeaders = headers
      in case token of
           None \<Rightarrow> typedHeaders
         | Some t \<Rightarrow>
             if truthy token
             then typedHeaders(''authorization'' \<mapsto> ''Bearer '' @ t)
             else typedHeaders)"

definition isAuthError :: "GraphQLError list \<Rightarrow> bool" where
  "isAuthError errors =
     list_ex (\<lambda>e. gql_code e = Some (code_string Code_UNAUTHENTICATED) \<or>
                   gql_code e = Some (code_string Code_FORBIDDEN)) errors"

text \<open>
  The world the links and the thunks act on: the browser's \<open>localStorage\<close>, the
  \<open>auth\<close> slice of the Redux store, the requests sent to the server so far and the
  lines written with \<open>console.error\<close>.
\<close>

datatype Operation = REGISTER_MUTATION | LOGIN_MUTATION | LOGOUT_MUTATION | ME_QUERY

record Request =
  req_operation :: Operation
  req_variables :: "(string \<times> string) list"
  req_headers :: Headers

datatype LogEntry =
    GraphQLErrorLog GraphQLError
  | NetworkErrorLog string
  | LogoutFailedLog "string option"

record World =
  localStorage :: Storage
  auth :: AuthState
  network :: "Request list"
  console :: "LogEntry list"

definition dispatch :: "action \<Rightarrow> World \<Rightarrow> World" where
  "dispatch a w = w\<lparr>auth := authReducer (auth w) a\<rparr>"

definition clearTokens_in :: "World \<Rightarrow> World" where
  "clearTokens_in w = w\<lparr>localStorage := clearTokens (localStorage w)\<rparr>"

definition console_error :: "LogEntry list \<Rightarrow> World \<Rightarrow> World" where
  "console_error entries w = w\<lparr>console := console w @ entries\<rparr>"

text \<open>
  The handler of \<open>errorLink\<close>, called with the GraphQL errors and the network error
  of a response (each \<open>undefined\<close> when the response has none).
\<close>

definition errorLink :: "GraphQLError list option \<Rightarrow> string option \<Rightarrow> World \<Rightarrow> World" where
  "errorLink graphQLErrors networkError w =
     (let w1 = (case graphQLErrors of
                  None \<Rightarrow> w
                | Some errors \<Rightarrow>
                    console_error (map GraphQLErrorLog errors)
                      (if isAuthError errors
                       then dispatch ClearAuth (clearTokens_in w)
                       else w))
      in case networkError of
           None \<Rightarrow> w1
         | Some e \<Rightarrow> console_error [NetworkErrorLog e] w1)"

text \<open>
  What one call of \<open>apolloClient.mutate\<close> or \<open>apolloClient.query\<close> comes to is
  decided by the server and by the Apollo library, outside the repository, so it is a
  parameter of every thunk.  The promise either resolves with \<open>{data, errors}\<close>
  (either may be missing), or rejects with an error that has a \<open>message\<close> (maybe
  missing) together with the GraphQL errors and the network error of the response.
\<close>

datatype 'd Outcome =
    Resolved "'d option" "GraphQLError list option"
  | Rejected "string option" "GraphQLError list option" "string option"

fun response_graphQLErrors :: "'d Outcome \<Rightarrow> GraphQLError list option" where
  "response_graphQLErrors (Resolved _ errors) = errors"
| "response_graphQLErrors (Rejected _ errors _) = errors"

fun response_networkError :: "'d Outcome \<Rightarrow> string option" where
  "response_networkError (Resolved _ _) = None"
| "response_networkError (Rejected _ _ e) = e"

text \<open>
  The client's link is \<open>from([errorLink, authLink, httpLink])\<close>: a request gets its
  headers from \<open>authLink\<close> (the context of the thunks' calls has no headers of its
  own) and goes to the server; the response comes back through \<open>errorLink\<close>.
\<close>

definition apolloClient :: "Operation \<Rightarrow> (string \<times> string) list \<Rightarrow> 'd Outcome \<Rightarrow> World \<Rightarrow> World" where
  "apolloClient operation variables outcome w =
     (let request = \<lparr>req_operation = operation, req_variables = variables,
                      req_headers = authLink (localStorage w) Map.empty\<rparr>;
          w1 = w\<lparr>network := network w @ [request]\<rparr>
      in errorLink (response_graphQLErrors outcome) (response_networkError outcome) w1)"

text \<open>
  \<open>client.ts\<close> builds the client with a link and a cache only, and no call of the
  thunks passes an \<open>errorPolicy\<close>, so the library's default policy applies: a
  response with GraphQL errors rejects the promise, and the rejection carries those
  errors.  The client therefore never delivers a promise that resolves with a
  non-empty error list.
\<close>

fun deliverable :: "'d Outcome \<Rightarrow> bool" where
  "deliverable (Resolved _ (Some (_ # _))) = False"
| "deliverable _ = True"

section \<open>The thunks: redux/thunks/authThunks.ts\<close>

record LoginCredentials =
  cred_email :: string
  cred_password :: string

record RegisterData =
  reg_email :: string
  reg_password :: string
  reg_name :: string

datatype 'a ThunkResult = Fulfilled 'a | RejectedWithValue string

text \<open>\<open>error.message || fallback\<close>: the fallback replaces a missing or empty message.\<close>

definition or_default :: "string option \<Rightarrow> string \<Rightarrow> string" where
  "or_default m fallback =
     (case m of
        None \<Rightarrow> fallback
      | Some s \<Rightarrow> if truthy m then s else fallback)"

text \<open>
  Destructuring \<open>data.login\<close>, \<open>data.register\<close> or reading \<open>data.me\<close> when the
  response has no data throws a TypeError inside the \<open>try\<close> block.  The wording of
  its message is the engine's; the model fixes a non-empty one, and no theorem depends
  on it.
\<close>

definition TypeError_message :: string where
  "TypeError_message = ''TypeError''"

definition login_catch :: "string option \<Rightarrow> World \<Rightarrow> World \<times> User ThunkResult" where
  "login_catch m w =
     (let errorMessage = or_default m ''Login failed''
      in (dispatch (SetError \<lparr>error_type = NETWORK_ERROR, error_message = errorMessage\<rparr>) w,
          RejectedWithValue errorMessage))"

definition loginUser ::
  "LoginCredentials \<Rightarrow> (User \<times> string) Outcome \<Rightarrow> World \<Rightarrow> World \<times> User ThunkResult" where
  "loginUser credentials outcome w =
     (let w1 = dispatch (SetStatus LOADING) w;
          w2 = apolloClient LOGIN_MUTATION
                 [(''email'', cred_email credentials), (''password'', cred_password credentials)]
                 outcome w1
      in case outcome of
           Rejected m _ _ \<Rightarrow> login_catch m w2
         | Resolved _ (Some (e # _)) \<Rightarrow>
             (let errorMessage = gql_message e
              in (dispatch (SetError \<lparr>error_type = INVALID_CREDENTIALS,
                                      error_message = errorMessage\<rparr>) w2,
                  RejectedWithValue errorMessage))
         | Resolved None _ \<Rightarrow> login_catch (Some TypeError_message) w2
         | Resolved (Some (u, token)) _ \<Rightarrow>
             (let w3 = w2\<lparr>localStorage := saveTokens token [] (localStorage w2)\<rparr>;
                  w4 = dispatch (SetTokens token []) w3;
                  w5 = dispatch (SetUser u) w4
              in (w5, Fulfilled u)))"

definition register_catch :: "string option \<Rightarrow> World \<Rightarrow> World \<times> User ThunkResult" where
  "register_catch m w =
     (let errorMessage = or_default m ''Registration failed''
      in (dispatch (SetError \<lparr>error_type = NETWORK_ERROR, error_message = errorMessage\<rparr>) w,
          RejectedWithValue errorMessage))"

definition registerUser ::
  "RegisterData \<Rightarrow> (User \<times> string) Outcome \<Rightarrow> World \<Rightarrow> World \<times> User ThunkResult" where
  "registerUser registerData outcome w =
     (let w1 = dispatch (SetStatus LOADING) w;
          w2 = apolloClient REGISTER_MUTATION
                 [(''email'', reg_email registerData), (''password'', reg_password registerData),
                  (''name'', reg_name registerData)]
                 outcome w1
      in case outcome of
           Rejected m _ _ \<Rightarrow> register_catch m w2
         | Resolved _ (Some (e # _)) \<Rightarrow>
             (let errorMessage = gql_message e
              in (dispatch (SetError \<lparr>error_type = INVALID_CREDENTIALS,
                                      error_message = errorMessage\<rparr>) w2,
                  RejectedWithValue errorMessage))
         | Resolved None _ \<Rightarrow> register_catch (Some TypeError_message) w2
         | Resolved (Some (u, _)) _ \<Rightarrow>
             (dispatch (SetStatus UNAUTHENTICATED) w2, Fulfilled u))"

definition logoutUser :: "unit Outcome \<Rightarrow> World \<Rightarrow> World \<times> unit ThunkResult" where
  "logoutUser outcome w =
     (let w1 = apolloClient LOGOUT_MUTATION [] outcome w;
          w2 = (case outcome of
                  Rejected m _ _ \<Rightarrow> console_error [LogoutFailedLog m] w1
                | Resolved _ _ \<Rightarrow> w1);
          w3 = clearTokens_in w2;
          w4 = dispatch ClearAuth w3
      in (w4, Fulfilled ()))"

definition initialize_catch :: "World \<Rightarrow> World \<times> User option ThunkResult" where
  "initialize_catch w = (dispatch ClearAuth (clearTokens_in w), Fulfilled None)"

definition initializeAuth :: "User Outcome \<Rightarrow> World \<Rightarrow> World \<times> User option ThunkResult" where
  "initializeAuth outcome w =
     (let token = getAccessToken (localStorage w)
      in case token of
           None \<Rightarrow> (dispatch (SetStatus UNAUTHENTICATED) w, Fulfilled None)
         | Some t \<Rightarrow>
             if \<not> truthy token
             then (dispatch (SetStatus UNAUTHENTICATED) w, Fulfilled None)
             else
               (let w1 = dispatch (SetTokens t []) w;
                    w2 = apolloClient ME_QUERY [] outcome w1
                in case outcome of
                     Resolved (Some me) _ \<Rightarrow> (dispatch (SetUser me) w2, Fulfilled (Some me))
                   | Resolved None _ \<Rightarrow> initialize_catch w2
                   | Rejected _ _ _ \<Rightarrow> initialize_catch w2))"

section \<open>Predicates and example values used by the theorems\<close>

fun is_SetStatus :: "action \<Rightarrow> bool" where
  "is_SetStatus (SetStatus _) = True"
| "is_SetStatus _ = False"

fun is_SetUser :: "action \<Rightarrow> bool" where
  "is_SetUser (SetUser _) = True"
| "is_SetUser _ = False"

text \<open>A response carries an authentication-class error when its error list has one.\<close>

fun carries_auth_error :: "GraphQLError list option \<Rightarrow> bool" where
  "carries_auth_error None = False"
| "carries_auth_error (Some errors) = isAuthError errors"

text \<open>
  A call succeeds when the promise resolves with data and without errors: the one
  path on which \<open>loginUser\<close> and \<open>registerUser\<close> reach their last statement.
\<close>

fun is_success :: "'d Outcome \<Rightarrow> bool" where
  "is_success (Resolved (Some _) None) = True"
| "is_success (Resolved (Some _) (Some [])) = True"
| "is_success _ = False"

definition cleared :: AuthState where
  "cleared =
     \<lparr>user = None, accessToken = None, refreshToken = None, status = UNAUTHENTICATED,
      error = None\<rparr>"

definition example_user :: User where
  "example_user =
     \<lparr>user_id = 1, user_email = ''a@x.com'', user_name = ''A'', user_status = [],
      user_createdAt = ''2024-01-01''\<rparr>"

definition example_credentials :: LoginCredentials where
  "example_credentials = \<lparr>cred_email = ''a@x.com'', cred_password = ''wrong''\<rparr>"

definition example_registerData :: RegisterData where
  "example_registerData =
     \<lparr>reg_email = ''b@x.com'', reg_password = ''pw123456'', reg_name = ''B''\<rparr>"

text \<open>A fresh world, and the world after \<open>example_user\<close> has logged in with token \<open>tok\<close>.\<close>

definition fresh_world :: World where
  "fresh_world = \<lparr>localStorage = Map.empty, auth = initialState, network = [], console = []\<rparr>"

definition logged_in_world :: World where
  "logged_in_world =
     \<lparr>localStorage = saveTokens ''tok'' [] Map.empty,
      auth = \<lparr>user = Some example_user, accessToken = Some ''tok'', refreshToken = Some [],
              status = AUTHENTICATED, error = None\<rparr>,
      network = [], console = []\<rparr>"

definition unauthenticated_error :: GraphQLError where
  "unauthenticated_error =
     \<lparr>gql_message = ''Invalid email or password'', gql_code = Some ''UNAUTHENTICATED''\<rparr>"

definition forbidden_error :: GraphQLError where
  "forbidden_error = \<lparr>gql_message = ''Account suspended'', gql_code = Some ''FORBIDDEN''\<rparr>"

definition bad_input_error :: GraphQLError where
  "bad_input_error =
     \<lparr>gql_message = ''Invalid email or password'', gql_code = Some ''BAD_USER_INPUT''\<rparr>"

text \<open>
  What the client delivers when the server rejects a login with a wrong password, and
  when it rejects a registration as forbidden: the promise rejects with the error's
  message and the response's errors, and there is no network error.
\<close>

definition wrong_password_rejection :: "(User \<times> string) Outcome" where
  "wrong_password_rejection =
     Rejected (Some ''Invalid email or password'') (Some [bad_input_error]) None"


text \<open>
  A runtime for the examples: \<open>atob\<close> and \<open>JSON.parse\<close> on the few strings the
  examples decode, a conversion that gives \<open>NaN\<close> (no example has a string, an
  array or an object as \<open>exp\<close>), and a clock at
  \<open>1700000000000\<close> ms.  The decoded texts are \<open>123\<close>, \<open>null\<close>, \<open>{}\<close> and
  the objects whose one member \<open>exp\<close> is \<open>null\<close>, \<open>1\<close> and \<open>4102444800\<close>; \<open>dq\<close> is
  the double quote around the member's name.
\<close>

definition dq :: string where
  "dq = [CHR 0x22]"

definition example_atob :: "string \<Rightarrow> string option" where
  "example_atob =
     map_of
       [(''MTIz'', ''123''),
        (''bnVsbA=='', ''null''),
        (''e30='', ''{}''),
        (''eyJleHAiOm51bGx9'', ''{'' @ dq @ ''exp'' @ dq @ '':null}''),
        (''eyJleHAiOjF9'', ''{'' @ dq @ ''exp'' @ dq @ '':1}''),
        (''eyJleHAiOjQxMDI0NDQ4MDB9'', ''{'' @ dq @ ''exp'' @ dq @ '':4102444800}'')]"

definition example_JSON_parse :: "string \<Rightarrow> Json option" where
  "example_JSON_parse =
     map_of
       [(''123'', JNumber 123),
        (''null'', JNull),
        (''{}'', JObject []),
        (''{'' @ dq @ ''exp'' @ dq @ '':null}'', JObject [(''exp'', JNull)]),
        (''{'' @ dq @ ''exp'' @ dq @ '':1}'', JObject [(''exp'', JNumber 1)]),
        (''{'' @ dq @ ''exp'' @ dq @ '':4102444800}'', JObject [(''exp'', JNumber 4102444800)])]"

definition example_runtime :: Runtime where
  "example_runtime =
     \<lparr>atob = example_atob, JSON_parse = example_JSON_parse,
      ToNumber_string_or_object = (\<lambda>_. Some NaN), Date_now = 1700000000000\<rparr>"

text \<open>A token store whose access slot holds the empty string.\<close>

definition empty_token_storage :: Storage where
  "empty_token_storage = saveTokens [] [] Map.empty"

section \<open>Helper lemmas\<close>

lemmas reducer_defs = setUser_def setTokens_def clearAuth_def setError_def setStatus_def

lemma clearTokens_idem: "clearTokens (clearTokens ls) = clearTokens ls"
  by (simp add: clearTokens_def)

lemma clearAuth_cleared: "clearAuth state = cleared"
  by (simp add: clearAuth_def cleared_def)

text \<open>\<open>isAuthError\<close> in the words of the specification.\<close>

lemma isAuthError_iff:
  "isAuthError errors \<longleftrightarrow>
     (\<exists>e \<in> set errors. gql_code e = Some ''UNAUTHENTICATED'' \<or> gql_code e = Some ''FORBIDDEN'')"
  by (simp add: isAuthError_def list_ex_iff)

text \<open>What the handler of \<open>errorLink\<close> does to each component of the world.\<close>

lemma errorLink_localStorage:
  "localStorage (errorLink g n w) =
     (if carries_auth_error g then clearTokens (localStorage w) else localStorage w)"
  by (cases g; cases n)
     (simp_all add: errorLink_def console_error_def dispatch_def clearTokens_in_def)

lemma errorLink_auth:
  "auth (errorLink g n w) = (if carries_auth_error g then cleared else auth w)"
  by (cases g; cases n)
     (simp_all add: errorLink_def console_error_def dispatch_def clearTokens_in_def
        clearAuth_cleared)

lemma errorLink_network: "network (errorLink g n w) = network w"
  by (cases g; cases n)
     (simp_all add: errorLink_def console_error_def dispatch_def clearTokens_in_def)

text \<open>The same for one call through the client.\<close>

lemma apolloClient_localStorage:
  "localStorage (apolloClient operation variables outcome w) =
     (if carries_auth_error (response_graphQLErrors outcome)
      then clearTokens (localStorage w) else localStorage w)"
  by (simp add: apolloClient_def errorLink_localStorage)

lemma apolloClient_auth:
  "auth (apolloClient operation variables outcome w) =
     (if carries_auth_error (response_graphQLErrors outcome) then cleared else auth w)"
  by (simp add: apolloClient_def errorLink_auth)

lemma apolloClient_network:
  "network (apolloClient operation variables outcome w) =
     network w @ [\<lparr>req_operation = operation, req_variables = variables,
                   req_headers = authLink (localStorage w) Map.empty\<rparr>]"
  by (simp add: apolloClient_def errorLink_network)

section \<open>Session invariant\<close>

text \<open>
  C1 (as stated, refuted).  \<open>setStatus\<close> stores any status whatever the user is: from
  the initial state, which satisfies the invariant in both readings,
  \<open>setStatus(AUTHENTICATED)\<close> gives a state with status \<open>AUTHENTICATED\<close> and user
  \<open>null\<close>; and after \<open>setUser\<close> has authenticated a user, \<open>setStatus(LOADING)\<close> (the
  first dispatch of \<open>loginUser\<close>) gives a state with a user, no error and a status that is
  not \<open>AUTHENTICATED\<close>.
\<close>

theorem setStatus_breaks_invariant:
  "session_invariant initialState \<and> session_invariant_status initialState \<and>
   status (authReducer initialState (SetStatus AUTHENTICATED)) = AUTHENTICATED \<and>
   user (authReducer initialState (SetStatus AUTHENTICATED)) = None \<and>
   \<not> session_invariant (authReducer initialState (SetStatus AUTHENTICATED)) \<and>
   \<not> session_invariant_status (authReducer initialState (SetStatus AUTHENTICATED)) \<and>
   session_invariant (authReducer initialState (SetUser example_user)) \<and>
   \<not> session_invariant
        (authReducer (authReducer initialState (SetUser example_user)) (SetStatus LOADING))"
  by (simp add: session_invariant_def session_invariant_status_def initialState_def reducer_defs)

text \<open>
  C1 (amended).  Every operation other than \<open>setStatus\<close> preserves the invariant:
  in the reading "status is not \<open>ERROR\<close>" without condition, in the reading "the
  \<open>error\<close> field is \<open>null\<close>" with \<open>setUser\<close> applied to a state that records no
  error.  Every operation other than \<open>setStatus(AUTHENTICATED)\<close> preserves that an
  \<open>AUTHENTICATED\<close> state has a user, and \<open>selectIsAuthenticated\<close> never holds of a
  state without a user.
\<close>

theorem reducers_preserve_invariant:
  "(session_invariant state \<and> \<not> is_SetStatus a \<and> (is_SetUser a \<longrightarrow> error state = None)
      \<longrightarrow> session_invariant (authReducer state a)) \<and>
   (session_invariant_status state \<and> \<not> is_SetStatus a
      \<longrightarrow> session_invariant_status (authReducer state a)) \<and>
   (authenticated_has_user state \<and> a \<noteq> SetStatus AUTHENTICATED
      \<longrightarrow> authenticated_has_user (authReducer state a)) \<and>
   (selectIsAuthenticated (authReducer state a) \<longrightarrow> user (authReducer state a) \<noteq> None)"
proof (cases a)
  case (SetStatus st)
  then show ?thesis
    by (auto simp: authenticated_has_user_def selectIsAuthenticated_def setStatus_def)
qed (auto simp: session_invariant_def session_invariant_status_def authenticated_has_user_def
      selectIsAuthenticated_def reducer_defs)

theorem reducers_preserve_invariant_witness:
  "session_invariant initialState \<and> \<not> is_SetStatus (SetUser example_user) \<and>
   is_SetUser (SetUser example_user) \<and> error initialState = None \<and>
   session_invariant (authReducer initialState (SetUser example_user)) \<and>
   session_invariant_status initialState \<and>
   session_invariant_status (authReducer initialState (SetUser example_user)) \<and>
   authenticated_has_user initialState \<and> SetUser example_user \<noteq> SetStatus AUTHENTICATED \<and>
   authenticated_has_user (authReducer initialState (SetUser example_user)) \<and>
   selectIsAuthenticated (authReducer initialState (SetUser example_user)) \<and>
   user (authReducer initialState (SetUser example_user)) \<noteq> None"
  using reducers_preserve_invariant [of initialState "SetUser example_user"]
  by (simp add: session_invariant_def session_invariant_status_def authenticated_has_user_def
      selectIsAuthenticated_def initialState_def setUser_def)

section \<open>Logout\<close>

text \<open>
  C2.  Whatever the remote logout call comes to (the promise resolves, with or
  without errors, or rejects), \<open>logoutUser\<close> ends with the three slots of the token
  store removed and the session state reset: user, tokens and error \<open>null\<close>, status
  \<open>UNAUTHENTICATED\<close>.  The thunk has one exit and the cleanup sits on it.
\<close>

theorem logoutUser_always_clears:
  "localStorage (fst (logoutUser outcome w)) (storage_key ACCESS_TOKEN) = None \<and>
   localStorage (fst (logoutUser outcome w)) (storage_key REFRESH_TOKEN) = None \<and>
   localStorage (fst (logoutUser outcome w)) (storage_key USER_DATA) = None \<and>
   auth (fst (logoutUser outcome w)) =
     \<lparr>user = None, accessToken = None, refreshToken = None, status = UNAUTHENTICATED,
      error = None\<rparr> \<and>
   snd (logoutUser outcome w) = Fulfilled ()"
  by (cases outcome)
     (simp_all add: logoutUser_def Let_def clearTokens_in_def dispatch_def console_error_def
        clearTokens_def clearAuth_def)

theorem logoutUser_always_clears_witness:
  "getAccessToken (localStorage logged_in_world) = Some ''tok'' \<and>
   localStorage (fst (logoutUser (Rejected (Some ''Failed to fetch'') None (Some ''Failed to fetch''))
                        logged_in_world)) (storage_key ACCESS_TOKEN) = None \<and>
   auth (fst (logoutUser (Rejected (Some ''Failed to fetch'') None (Some ''Failed to fetch''))
                logged_in_world)) = cleared"
  using logoutUser_always_clears
          [of "Rejected (Some ''Failed to fetch'') None (Some ''Failed to fetch'')" logged_in_world]
  by (simp add: cleared_def logged_in_world_def getAccessToken_def saveTokens_def)

section \<open>The failure interceptor\<close>

text \<open>
  C3.  When the error list of a response has an error with code \<open>UNAUTHENTICATED\<close>
  or \<open>FORBIDDEN\<close>, the handler of \<open>errorLink\<close> clears the token store and the
  session state, which is the store and the state \<open>logoutUser\<close> ends with; this holds
  for the handler alone and for a call of any operation through the client.  When the
  response has no error list, or a list without such a code, with or without a network
  error, the token store and the session state are unchanged; a network error alone only
  adds a line to the console.
\<close>

theorem errorLink_teardown:
  "((\<exists>e \<in> set errors. gql_code e = Some ''UNAUTHENTICATED'' \<or> gql_code e = Some ''FORBIDDEN'') \<longrightarrow>
      localStorage (errorLink (Some errors) networkError w) = clearTokens (localStorage w) \<and>
      auth (errorLink (Some errors) networkError w) = clearAuth (auth w) \<and>
      localStorage (errorLink (Some errors) networkError w) =
        localStorage (fst (logoutUser logout_outcome w)) \<and>
      auth (errorLink (Some errors) networkError w) = auth (fst (logoutUser logout_outcome w))) \<and>
   (response_graphQLErrors outcome = Some errors \<and>
    (\<exists>e \<in> set errors. gql_code e = Some ''UNAUTHENTICATED'' \<or> gql_code e = Some ''FORBIDDEN'') \<longrightarrow>
      localStorage (apolloClient operation variables outcome w) = clearTokens (localStorage w) \<and>
      auth (apolloClient operation variables outcome w) = clearAuth (auth w)) \<and>
   (\<not> (\<exists>e \<in> set errors. gql_code e = Some ''UNAUTHENTICATED'' \<or> gql_code e = Some ''FORBIDDEN'') \<longrightarrow>
      localStorage (errorLink (Some errors) networkError w) = localStorage w \<and>
      auth (errorLink (Some errors) networkError w) = auth w) \<and>
   localStorage (errorLink None networkError w) = localStorage w \<and>
   auth (errorLink None networkError w) = auth w \<and>
   errorLink None (Some e) w = w\<lparr>console := console w @ [NetworkErrorLog e]\<rparr>"
proof -
  have logout_store: "localStorage (fst (logoutUser logout_outcome w)) = clearTokens (localStorage w)"
    by (cases logout_outcome)
       (simp_all add: logoutUser_def Let_def clearTokens_in_def dispatch_def console_error_def
          apolloClient_localStorage clearTokens_idem)
  have logout_auth: "auth (fst (logoutUser logout_outcome w)) = cleared"
    by (cases logout_outcome)
       (simp_all add: logoutUser_def Let_def clearTokens_in_def dispatch_def console_error_def
          clearAuth_cleared)
  have handler_only: "errorLink None (Some e) w = w\<lparr>console := console w @ [NetworkErrorLog e]\<rparr>"
    by (simp add: errorLink_def console_error_def)
  show ?thesis
    unfolding isAuthError_iff [symmetric]
    by (simp add: errorLink_localStorage errorLink_auth apolloClient_localStorage
          apolloClient_auth logout_store logout_auth clearAuth_cleared handler_only)
qed

theorem errorLink_teardown_witness:
  "(\<exists>e \<in> set [bad_input_error, forbidden_error].
      gql_code e = Some ''UNAUTHENTICATED'' \<or> gql_code e = Some ''FORBIDDEN'') \<and>
   getAccessToken (localStorage logged_in_world) = Some ''tok'' \<and>
   getAccessToken (localStorage (errorLink (Some [bad_input_error, forbidden_error]) None
                                   logged_in_world)) = None \<and>
   auth (errorLink (Some [bad_input_error, forbidden_error]) None logged_in_world) = cleared \<and>
   auth (apolloClient ME_QUERY [] (Resolved (None :: User option)
           (Some [bad_input_error, forbidden_error])) logged_in_world) = cleared \<and>
   \<not> (\<exists>e \<in> set [bad_input_error].
        gql_code e = Some ''UNAUTHENTICATED'' \<or> gql_code e = Some ''FORBIDDEN'') \<and>
   localStorage (errorLink (Some [bad_input_error]) (Some ''Failed to fetch'') logged_in_world) =
     localStorage logged_in_world \<and>
   auth (errorLink (Some [bad_input_error]) (Some ''Failed to fetch'') logged_in_world) =
     auth logged_in_world"
proof -
  have yes: "\<exists>e \<in> set [bad_input_error, forbidden_error].
               gql_code e = Some ''UNAUTHENTICATED'' \<or> gql_code e = Some ''FORBIDDEN''"
    by (simp add: bad_input_error_def forbidden_error_def)
  have no: "\<not> (\<exists>e \<in> set [bad_input_error].
               gql_code e = Some ''UNAUTHENTICATED'' \<or> gql_code e = Some ''FORBIDDEN'')"
    by (simp add: bad_input_error_def)
  have seen: "response_graphQLErrors (Resolved (None :: User option)
                (Some [bad_input_error, forbidden_error])) = Some [bad_input_error, forbidden_error]"
    by simp
  have stored: "getAccessToken (localStorage logged_in_world) = Some ''tok''"
    by (simp add: logged_in_world_def getAccessToken_def saveTokens_def)
  have gone: "getAccessToken (clearTokens (localStorage logged_in_world)) = None"
    by (simp add: getAccessToken_def clearTokens_def)
  note torn = errorLink_teardown
      [where errors = "[bad_input_error, forbidden_error]" and networkError = None
         and w = logged_in_world and operation = ME_QUERY and variables = "[]"
         and outcome = "Resolved (None :: User option) (Some [bad_input_error, forbidden_error])"]
  note kept = errorLink_teardown
      [where errors = "[bad_input_error]" and networkError = "Some ''Failed to fetch''"
         and w = logged_in_world]
  from torn yes seen
  have "localStorage (errorLink (Some [bad_input_error, forbidden_error]) None logged_in_world) =
          clearTokens (localStorage logged_in_world) \<and>
        auth (errorLink (Some [bad_input_error, forbidden_error]) None logged_in_world) =
          clearAuth (auth logged_in_world) \<and>
        auth (apolloClient ME_QUERY [] (Resolved (None :: User option)
                (Some [bad_input_error, forbidden_error])) logged_in_world) =
          clearAuth (auth logged_in_world)"
    by blast
  with gone
  have "getAccessToken (localStorage (errorLink (Some [bad_input_error, forbidden_error]) None
                                        logged_in_world)) = None \<and>
        auth (errorLink (Some [bad_input_error, forbidden_error]) None logged_in_world) = cleared \<and>
        auth (apolloClient ME_QUERY [] (Resolved (None :: User option)
                (Some [bad_input_error, forbidden_error])) logged_in_world) = cleared"
    by (simp add: clearAuth_cleared)
  moreover from kept no
  have "localStorage (errorLink (Some [bad_input_error]) (Some ''Failed to fetch'') logged_in_world) =
          localStorage logged_in_world \<and>
        auth (errorLink (Some [bad_input_error]) (Some ''Failed to fetch'') logged_in_world) =
          auth logged_in_world"
    by blast
  ultimately show ?thesis
    using yes no stored by blast
qed

section \<open>Login and registration\<close>



text \<open>
  Every failure the client can deliver takes \<open>loginUser\<close> and \<open>registerUser\<close>
  through their \<open>catch\<close> block: the branch that tests \<open>errors.length > 0\<close> and
  records \<open>INVALID_CREDENTIALS\<close> needs a promise that resolves with errors.
\<close>

lemma loginUser_failure_kind:
  assumes "deliverable outcome" and "\<not> is_success outcome"
  shows "\<exists>m. error (auth (fst (loginUser credentials outcome w))) =
               Some \<lparr>error_type = NETWORK_ERROR, error_message = m\<rparr>"
  using assms
  by (cases outcome rule: deliverable.cases)
     (auto simp: loginUser_def login_catch_def Let_def dispatch_def setError_def
        split: option.splits list.splits)

lemma registerUser_failure_kind:
  assumes "deliverable outcome" and "\<not> is_success outcome"
  shows "\<exists>m. error (auth (fst (registerUser registerData outcome w))) =
               Some \<lparr>error_type = NETWORK_ERROR, error_message = m\<rparr>"
  using assms
  by (cases outcome rule: deliverable.cases)
     (auto simp: registerUser_def register_catch_def Let_def dispatch_def setError_def
        split: option.splits list.splits)

text \<open>
  C4 (the code departs from the claim).  The server rejects a login with a wrong
  password: its response has one GraphQL error, of code \<open>BAD_USER_INPUT\<close>, and the
  client rejects the promise with that error's message.  \<open>loginUser\<close> ends with
  status \<open>ERROR\<close>, and the token store and the user are as they were, but the error
  it records is of kind \<open>NETWORK_ERROR\<close>, not \<open>INVALID_CREDENTIALS\<close>.
\<close>

theorem loginUser_rejection_is_network_error:
  "deliverable wrong_password_rejection \<and>
   response_graphQLErrors wrong_password_rejection = Some [bad_input_error] \<and>
   response_networkError wrong_password_rejection = None \<and>
   status (auth (fst (loginUser example_credentials wrong_password_rejection
                        logged_in_world))) = ERROR \<and>
   error (auth (fst (loginUser example_credentials wrong_password_rejection
                       logged_in_world))) =
     Some \<lparr>error_type = NETWORK_ERROR, error_message = ''Invalid email or password''\<rparr> \<and>
   error (auth (fst (loginUser example_credentials wrong_password_rejection
                       logged_in_world))) \<noteq>
     Some \<lparr>error_type = INVALID_CREDENTIALS, error_message = ''Invalid email or password''\<rparr> \<and>
   localStorage (fst (loginUser example_credentials wrong_password_rejection
                        logged_in_world)) = localStorage logged_in_world \<and>
   user (auth (fst (loginUser example_credentials wrong_password_rejection
                      logged_in_world))) = user (auth logged_in_world) \<and>
   snd (loginUser example_credentials wrong_password_rejection logged_in_world) =
     RejectedWithValue ''Invalid email or password''"
  by (simp add: wrong_password_rejection_def loginUser_def login_catch_def or_default_def
        Let_def dispatch_def apolloClient_localStorage apolloClient_auth isAuthError_def
        bad_input_error_def logged_in_world_def reducer_defs)




text \<open>
  C6.  When the register mutation resolves with data and without errors,
  \<open>registerUser\<close> sets the status to \<open>UNAUTHENTICATED\<close> and returns the created
  user; the user, the tokens and the error of the session state and the whole token store
  are as they were before the call, and the session does not count as authenticated.
\<close>

theorem registerUser_success:
  assumes "errors = None \<or> errors = Some []"
      and "w' = fst (registerUser registerData (Resolved (Some (u, token)) errors) w)"
  shows "status (auth w') = UNAUTHENTICATED \<and>
         user (auth w') = user (auth w) \<and>
         accessToken (auth w') = accessToken (auth w) \<and>
         refreshToken (auth w') = refreshToken (auth w) \<and>
         error (auth w') = error (auth w) \<and>
         localStorage w' = localStorage w \<and>
         \<not> selectIsAuthenticated (auth w') \<and>
         snd (registerUser registerData (Resolved (Some (u, token)) errors) w) = Fulfilled u"
  using assms
  by (auto simp: registerUser_def Let_def dispatch_def apolloClient_localStorage
        apolloClient_auth isAuthError_def setStatus_def selectIsAuthenticated_def)

theorem registerUser_success_witness:
  "status (auth (fst (registerUser example_registerData
      (Resolved (Some (example_user, ''tok'')) None) fresh_world))) = UNAUTHENTICATED \<and>
   user (auth (fst (registerUser example_registerData
      (Resolved (Some (example_user, ''tok'')) None) fresh_world))) = None \<and>
   accessToken (auth (fst (registerUser example_registerData
      (Resolved (Some (example_user, ''tok'')) None) fresh_world))) = None \<and>
   getAccessToken (localStorage (fst (registerUser example_registerData
      (Resolved (Some (example_user, ''tok'')) None) fresh_world))) = None \<and>
   snd (registerUser example_registerData
      (Resolved (Some (example_user, ''tok'')) None) fresh_world) = Fulfilled example_user"
  using registerUser_success
          [where errors = None and registerData = example_registerData
             and u = example_user and token = "''tok''" and w = fresh_world,
           OF disjI1 [OF refl] refl]
  by (simp add: fresh_world_def initialState_def getAccessToken_def)

section \<open>Initialisation\<close>

text \<open>
  C7.  When the token store holds no access token, \<open>initializeAuth\<close> sets the status
  to \<open>UNAUTHENTICATED\<close> and returns \<open>null\<close>: the world it ends with is the world
  it started in with only the status changed, so no request has been sent and the token
  store, the other fields of the session state and the console are untouched.
\<close>

theorem initializeAuth_no_token:
  assumes "getAccessToken (localStorage w) = None"
  shows "fst (initializeAuth outcome w) = w\<lparr>auth := (auth w)\<lparr>status := UNAUTHENTICATED\<rparr>\<rparr> \<and>
         status (auth (fst (initializeAuth outcome w))) = UNAUTHENTICATED \<and>
         network (fst (initializeAuth outcome w)) = network w \<and>
         snd (initializeAuth outcome w) = Fulfilled None"
  using assms by (simp add: initializeAuth_def Let_def dispatch_def setStatus_def)

theorem initializeAuth_no_token_witness:
  "getAccessToken (localStorage fresh_world) = None \<and>
   status (auth (fst (initializeAuth (Resolved (Some example_user) None) fresh_world))) =
     UNAUTHENTICATED \<and>
   network (fst (initializeAuth (Resolved (Some example_user) None) fresh_world)) = [] \<and>
   snd (initializeAuth (Resolved (Some example_user) None) fresh_world) = Fulfilled None"
proof -
  have none: "getAccessToken (localStorage fresh_world) = None"
    by (simp add: fresh_world_def getAccessToken_def)
  have net: "network fresh_world = []"
    by (simp add: fresh_world_def)
  from initializeAuth_no_token [OF none, of "Resolved (Some example_user) None"] none net
  show ?thesis by simp
qed

section \<open>The credential injector\<close>

text \<open>
  C9 (as stated, refuted).  A token store whose access slot holds the empty string
  holds a token that is not \<open>null\<close>, and \<open>authLink\<close> attaches no header: the test
  \<open>if (token)\<close> is one of truthiness.
\<close>

theorem authLink_empty_token_no_header:
  "getAccessToken empty_token_storage = Some [] \<and>
   getAccessToken empty_token_storage \<noteq> None \<and>
   authLink empty_token_storage Map.empty ''authorization'' = None"
  by (simp add: authLink_def Let_def getAccessToken_def empty_token_storage_def saveTokens_def)

text \<open>
  C9 (amended).  \<open>authLink\<close> sets \<open>authorization\<close> to \<open>Bearer\<close> followed by the
  stored access token when that token is neither \<open>null\<close> nor empty, and otherwise
  passes the headers of the context on unchanged.  On a context without headers, which is
  what every request of the thunks has, the header is present iff the stored token is
  neither \<open>null\<close> nor empty, and it is never the bare \<open>Bearer\<close> prefix.
\<close>

theorem authLink_header:
  "(getAccessToken ls = Some t \<and> t \<noteq> [] \<longrightarrow>
      authLink ls headers = headers(''authorization'' \<mapsto> ''Bearer '' @ t)) \<and>
   (getAccessToken ls = None \<or> getAccessToken ls = Some [] \<longrightarrow>
      authLink ls headers = headers) \<and>
   (authLink ls Map.empty ''authorization'' \<noteq> None) = truthy (getAccessToken ls) \<and>
   authLink ls Map.empty ''authorization'' \<noteq> Some ''Bearer '' \<and>
   req_headers (last (network (apolloClient operation variables outcome w))) =
     authLink (localStorage w) Map.empty"
  by (cases "getAccessToken ls")
     (auto simp: authLink_def Let_def apolloClient_network)

theorem authLink_header_witness:
  "getAccessToken (localStorage logged_in_world) = Some ''tok'' \<and> ''tok'' \<noteq> [] \<and>
   authLink (localStorage logged_in_world) Map.empty ''authorization'' = Some ''Bearer tok'' \<and>
   getAccessToken (localStorage fresh_world) = None \<and>
   authLink (localStorage fresh_world) Map.empty = Map.empty"
proof -
  have stored: "getAccessToken (localStorage logged_in_world) = Some ''tok''"
    by (simp add: logged_in_world_def getAccessToken_def saveTokens_def)
  have none: "getAccessToken (localStorage fresh_world) = None"
    by (simp add: fresh_world_def getAccessToken_def)
  from authLink_header [where ls = "localStorage logged_in_world" and t = "''tok''"
                          and headers = Map.empty and operation = ME_QUERY and variables = "[]"
                          and outcome = "Resolved (None :: User option) None"
                          and w = logged_in_world] stored
  have "authLink (localStorage logged_in_world) Map.empty ''authorization'' = Some ''Bearer tok''"
    by simp
  moreover
  from authLink_header [where ls = "localStorage fresh_world" and t = "''tok''"
                          and headers = Map.empty and operation = ME_QUERY and variables = "[]"
                          and outcome = "Resolved (None :: User option) None"
                          and w = fresh_world] none
  have "authLink (localStorage fresh_world) Map.empty = Map.empty"
    by simp
  ultimately show ?thesis
    using stored none by simp
qed

section \<open>Token expiry\<close>






text \<open>
  C10 (as stated, refuted).  The middle segment of \<open>h.bnVsbA==.s\<close> decodes to the JSON
  text \<open>null\<close>, which is valid JSON without an expiry claim: reading \<open>exp\<close> of it
  throws, and \<open>isTokenExpired\<close> returns true.  The middle segment of
  \<open>h.eyJleHAiOm51bGx9.s\<close> decodes to an object whose \<open>exp\<close> is \<open>null\<close>, not a
  number: \<open>null * 1000\<close> is \<open>0\<close>, not \<open>NaN\<close>, and \<open>isTokenExpired\<close> returns true.
\<close>

theorem isTokenExpired_null_payload:
  "split_dot ''h.bnVsbA==.s'' = [''h'', ''bnVsbA=='', ''s''] \<and>
   atob example_runtime ''bnVsbA=='' = Some ''null'' \<and>
   JSON_parse example_runtime ''null'' = Some JNull \<and>
   isTokenExpired_try example_runtime ''h.bnVsbA==.s'' = Inl TypeError \<and>
   isTokenExpired example_runtime ''h.bnVsbA==.s'' = True \<and>
   split_dot ''h.eyJleHAiOm51bGx9.s'' = [''h'', ''eyJleHAiOm51bGx9'', ''s''] \<and>
   atob example_runtime ''eyJleHAiOm51bGx9'' = Some (''{'' @ dq @ ''exp'' @ dq @ '':null}'') \<and>
   JSON_parse example_runtime (''{'' @ dq @ ''exp'' @ dq @ '':null}'') =
     Some (JObject [(''exp'', JNull)]) \<and>
   isTokenExpired_try example_runtime ''h.eyJleHAiOm51bGx9.s'' = Inr True \<and>
   isTokenExpired example_runtime ''h.eyJleHAiOm51bGx9.s'' = True"
  by (simp add: isTokenExpired_def isTokenExpired_try_def payload_segment_def example_runtime_def
        example_atob_def example_JSON_parse_def dq_def)

text \<open>
  C10 (amended).  When the payload segment decodes to a JSON value other than
  \<open>null\<close> that has no \<open>exp\<close>, or whose \<open>exp\<close> converts to \<open>NaN\<close>, no step
  throws and \<open>isTokenExpired\<close> returns false, whatever the current time.
\<close>

theorem isTokenExpired_without_exp:
  assumes "atob rt (payload_segment token) = Some decoded"
      and "JSON_parse rt decoded = Some payload"
      and "payload \<noteq> JNull"
      and "get_exp payload = Inr None \<or>
           (get_exp payload = Inr (Some v) \<and> ToNumber rt (Some v) = Inr NaN)"
  shows "isTokenExpired_try rt token = Inr False \<and> isTokenExpired rt token = False"
  using assms by (auto simp: isTokenExpired_def isTokenExpired_try_def)

theorem isTokenExpired_without_exp_witness:
  "split_dot ''h.e30=.s'' = [''h'', ''e30='', ''s''] \<and>
   atob example_runtime (payload_segment ''h.e30=.s'') = Some ''{}'' \<and>
   JSON_parse example_runtime ''{}'' = Some (JObject []) \<and>
   JObject [] \<noteq> JNull \<and>
   get_exp (JObject []) = Inr None \<and>
   isTokenExpired_try example_runtime ''h.e30=.s'' = Inr False \<and>
   isTokenExpired example_runtime ''h.e30=.s'' = False"
proof -
  have dec: "atob example_runtime (payload_segment ''h.e30=.s'') = Some ''{}''"
    by (simp add: payload_segment_def example_runtime_def example_atob_def)
  have parse: "JSON_parse example_runtime ''{}'' = Some (JObject [])"
    by (simp add: example_runtime_def example_JSON_parse_def dq_def)
  have noexp: "get_exp (JObject []) = Inr None"
    by simp
  from isTokenExpired_without_exp [OF dec parse _ disjI1 [OF noexp]] dec parse noexp
  show ?thesis by simp
qed

end
